theory Spec2Isabelle
  imports Main
begin

section \<open>The session registry of the browser service\<close>

text \<open>
  The development embeds \<^verbatim>\<open>src/api/browser-manager.js\<close> (class BrowserManager) and the
  two places of the HTTP shell that the registry depends on: the POST /sessions handler,
  which chooses the session id, and the shutdown handler, which calls cleanup.

  JavaScript runs one task at a time, and other requests are served only while a call is
  suspended at an \<^verbatim>\<open>await\<close>. createSession, getSession, listSessions and the plain
  killSession and cleanup describe a call that runs to completion with nothing served in
  between; \<open>killSession_served\<close> and \<open>cleanup_served\<close> take the requests served during
  the awaits as an argument. The browser library (Playwright) is outside the repository:
  its answers are read from a \<open>driver\<close> record, and every theorem holds for all drivers.
\<close>

subsection \<open>The JavaScript Map\<close>

text \<open>
  \<^verbatim>\<open>this.sessions = new Map()\<close>. A Map keeps its entries in insertion order;
  \<^verbatim>\<open>set\<close> on a key that is present replaces the value in place, \<^verbatim>\<open>delete\<close>
  removes the entry, \<^verbatim>\<open>get\<close> answers undefined (here \<open>None\<close>) for a missing key,
  \<^verbatim>\<open>size\<close> is the number of entries.
\<close>

type_synonym ('k, 'v) js_map = "('k \<times> 'v) list"

definition Map_get :: "('k, 'v) js_map \<Rightarrow> 'k \<Rightarrow> 'v option" where
  "Map_get m k = map_of m k"

fun Map_set :: "'k \<Rightarrow> 'v \<Rightarrow> ('k, 'v) js_map \<Rightarrow> ('k, 'v) js_map" where
  "Map_set k v [] = [(k, v)]"
| "Map_set k v ((k', v') # m) = (if k' = k then (k, v) # m else (k', v') # Map_set k v m)"

definition Map_delete :: "'k \<Rightarrow> ('k, 'v) js_map \<Rightarrow> ('k, 'v) js_map" where
  "Map_delete k m = filter (\<lambda>e. fst e \<noteq> k) m"

definition Map_size :: "('k, 'v) js_map \<Rightarrow> nat" where
  "Map_size m = length m"

subsection \<open>Data\<close>

text \<open>The proxy descriptor \<^verbatim>\<open>{ server, username, password }\<close>; the credentials may be
  left out.\<close>

record proxy_cfg =
  proxy_server :: string
  proxy_username :: "string option"
  proxy_password :: "string option"

record viewport_cfg =
  width :: nat
  height :: nat

text \<open>
  The \<^verbatim>\<open>options\<close> argument of createSession (and the JSON body of POST /sessions, which
  has the same four fields). \<open>None\<close> is a field that is undefined; for the proxy and the
  user agent it also stands for null, which the code treats alike. The fields are
  well-typed (a flag, a descriptor, two natural numbers, a string): what JavaScript would
  do with a body of another shape is outside the model.
\<close>

record create_options =
  opt_headless :: "bool option"
  opt_proxy :: "proxy_cfg option"
  opt_viewport :: "viewport_cfg option"
  opt_userAgent :: "string option"

text \<open>The object handed to \<^verbatim>\<open>chromium.launchServer\<close>.\<close>

record launch_options =
  launch_headless :: bool
  launch_args :: "string list"
  launch_proxy :: "proxy_cfg option"

text \<open>The \<^verbatim>\<open>options\<close> field of a stored session:
  \<^verbatim>\<open>{ headless, proxy: !!proxy, viewport }\<close>.\<close>

record session_options =
  headless :: bool
  proxy :: bool
  viewport :: viewport_cfg

text \<open>
  A stored session. \<open>server\<close> is the BrowserServer object; an object is identified by the
  number of the launchServer call that returned it. \<open>status\<close> is a JavaScript string.
\<close>

record session =
  server :: nat
  wsEndpoint :: string
  createdAt :: string
  status :: string
  options :: session_options

text \<open>What createSession returns.\<close>

record created_info =
  c_sessionId :: string
  c_wsEndpoint :: string
  c_createdAt :: string
  c_status :: string

text \<open>What getSession returns, and the elements of what listSessions returns.\<close>

record session_info =
  sessionId :: string
  info_wsEndpoint :: string
  info_createdAt :: string
  info_status :: string
  info_options :: session_options

text \<open>
  The browser library. \<open>launchServer drv n lo\<close> is the outcome of the \<open>n\<close>-th call of
  \<^verbatim>\<open>chromium.launchServer\<close>, made with launch options \<open>lo\<close>: \<open>Inl msg\<close> when the
  promise rejects with an error of message \<open>msg\<close>, \<open>Inr ep\<close> when it resolves to a server
  whose \<^verbatim>\<open>wsEndpoint()\<close> is \<open>ep\<close>. \<open>close drv h\<close> is the outcome of
  \<^verbatim>\<open>close()\<close> on server \<open>h\<close>: \<open>Some msg\<close> when it rejects.
\<close>

record driver =
  launchServer :: "nat \<Rightarrow> launch_options \<Rightarrow> string + string"
  close :: "nat \<Rightarrow> string option"

text \<open>The lines written to the console, kept as events rather than formatted text.\<close>

datatype log_event =
    Log_creating string
  | Log_created string string
  | Log_create_failed string
  | Log_close_error string string
  | Log_killing string
  | Log_killed string
  | Log_cleaning_up nat
  | Log_shutting_down

text \<open>
  The state of the process: the singleton's Map, the number of launchServer calls made so
  far, the servers on which \<^verbatim>\<open>close()\<close> has been invoked (in order), the console, and
  the exit code once \<^verbatim>\<open>process.exit\<close> has been called.
\<close>

record world =
  sessions :: "(string, session) js_map"
  launched :: nat
  closed :: "nat list"
  console :: "log_event list"
  exit_code :: "nat option"

definition init_world :: world where
  "init_world = \<lparr>sessions = [], launched = 0, closed = [], console = [], exit_code = None\<rparr>"

subsection \<open>Rendering a number in a template literal\<close>

definition digit_char :: "nat \<Rightarrow> char" where
  "digit_char d = char_of (48 + d)"

function show_nat :: "nat \<Rightarrow> string" where
  "show_nat n = (if n < 10 then [digit_char n] else show_nat (n div 10) @ [digit_char (n mod 10)])"
  by pat_completeness auto
termination
  by (relation "measure id") auto

subsection \<open>BrowserManager\<close>

definition default_viewport :: viewport_cfg where
  "default_viewport = \<lparr>width = 1920, height = 1080\<rparr>"

text \<open>Lines 24 to 49 of browser-manager.js: the destructuring defaults and the launch
  options.\<close>

definition launch_options_of :: "create_options \<Rightarrow> launch_options" where
  "launch_options_of opts =
     (let headless = (case opt_headless opts of None \<Rightarrow> True | Some b \<Rightarrow> b);
          proxy = opt_proxy opts;
          viewport = (case opt_viewport opts of None \<Rightarrow> default_viewport | Some v \<Rightarrow> v)
      in \<lparr>launch_headless = headless,
          launch_args =
            [''--no-sandbox'',
             ''--disable-setuid-sandbox'',
             ''--disable-dev-shm-usage'',
             ''--disable-accelerated-2d-canvas'',
             ''--disable-gpu'',
             ''--window-size='' @ show_nat (width viewport) @ '','' @ show_nat (height viewport)],
          launch_proxy =
            (case proxy of
               None \<Rightarrow> None
             | Some p \<Rightarrow> Some \<lparr>proxy_server = proxy_server p,
                               proxy_username = proxy_username p,
                               proxy_password = proxy_password p\<rparr>)\<rparr>)"

text \<open>Line 61: the options kept with the session.\<close>

definition stored_options :: "create_options \<Rightarrow> session_options" where
  "stored_options opts =
     \<lparr>headless = (case opt_headless opts of None \<Rightarrow> True | Some b \<Rightarrow> b),
      proxy = (opt_proxy opts \<noteq> None),
      viewport = (case opt_viewport opts of None \<Rightarrow> default_viewport | Some v \<Rightarrow> v)\<rparr>"

text \<open>
  createSession(sessionId, options), with \<open>now\<close> the value of
  \<^verbatim>\<open>new Date().toISOString()\<close> at line 59. When launchServer rejects, the await at
  line 52 throws and nothing after it runs: the call rejects with the driver's error.
\<close>

definition createSession ::
  "driver \<Rightarrow> string \<Rightarrow> create_options \<Rightarrow> string \<Rightarrow> world \<Rightarrow> (string + created_info) \<times> world" where
  "createSession drv sid opts now w =
     (case launchServer drv (launched w) (launch_options_of opts) of
        Inl err \<Rightarrow> (Inl err, w\<lparr>launched := Suc (launched w)\<rparr>)
      | Inr ep \<Rightarrow>
          (let s = \<lparr>server = launched w, wsEndpoint = ep, createdAt = now,
                    status = ''active'', options = stored_options opts\<rparr>
           in (Inr \<lparr>c_sessionId = sid, c_wsEndpoint = ep,
                    c_createdAt = createdAt s, c_status = status s\<rparr>,
               w\<lparr>launched := Suc (launched w),
                 sessions := Map_set sid s (sessions w)\<rparr>)))"

definition info_of :: "string \<Rightarrow> session \<Rightarrow> session_info" where
  "info_of sid s =
     \<lparr>sessionId = sid, info_wsEndpoint = wsEndpoint s, info_createdAt = createdAt s,
      info_status = status s, info_options = options s\<rparr>"

text \<open>getSession(sessionId): \<open>None\<close> is the null of line 81.\<close>

definition getSession :: "string \<Rightarrow> world \<Rightarrow> session_info option" where
  "getSession sid w =
     (case Map_get (sessions w) sid of
        None \<Rightarrow> None
      | Some s \<Rightarrow> Some (info_of sid s))"

definition listSessions :: "world \<Rightarrow> session_info list" where
  "listSessions w = map (\<lambda>(sid, s). info_of sid s) (sessions w)"

text \<open>
  Line 120 of killSession, up to the await: \<^verbatim>\<open>close()\<close> has been invoked on the server
  of the session and its promise is pending. This is the state that other requests see
  while killSession is suspended.
\<close>

definition close_invoked :: "session \<Rightarrow> world \<Rightarrow> world" where
  "close_invoked s w = w\<lparr>closed := closed w @ [server s]\<rparr>"

text \<open>
  Lines 121 to 123 of killSession: the promise of \<^verbatim>\<open>close()\<close> has settled; a
  rejection is caught and written to the console.
\<close>

definition close_settled :: "driver \<Rightarrow> string \<Rightarrow> session \<Rightarrow> world \<Rightarrow> world" where
  "close_settled drv sid s w =
     (case close drv (server s) of
        None \<Rightarrow> w
      | Some msg \<Rightarrow> w\<lparr>console := console w @ [Log_close_error sid msg]\<rparr>)"

text \<open>Lines 119 to 123 with nothing served during the await.\<close>

definition close_server :: "driver \<Rightarrow> string \<Rightarrow> session \<Rightarrow> world \<Rightarrow> world" where
  "close_server drv sid s w = close_settled drv sid s (close_invoked s w)"

text \<open>killSession(sessionId), running to completion with nothing served during its
  await.\<close>

definition killSession :: "driver \<Rightarrow> string \<Rightarrow> world \<Rightarrow> bool \<times> world" where
  "killSession drv sid w =
     (case Map_get (sessions w) sid of
        None \<Rightarrow> (False, w)
      | Some s \<Rightarrow>
          (let w1 = close_server drv sid s w
           in (True, w1\<lparr>sessions := Map_delete sid (sessions w1)\<rparr>)))"

definition getActiveCount :: "world \<Rightarrow> nat" where
  "getActiveCount w = Map_size (sessions w)"

subsection \<open>What is served while a call is suspended\<close>

text \<open>
  While killSession awaits \<^verbatim>\<open>close()\<close>, the event loop serves other requests. The
  requests below are the registry calls of the POST, GET and DELETE handlers; each is
  taken to run to completion inside the one await, and \<open>serve_all\<close> returns the answers
  in the order of the requests.
\<close>

datatype request =
    Req_create string create_options string
  | Req_get string
  | Req_kill string

datatype answer =
    Ans_created "string + created_info"
  | Ans_got "session_info option"
  | Ans_killed bool

fun serve :: "driver \<Rightarrow> request \<Rightarrow> world \<Rightarrow> answer \<times> world" where
  "serve drv (Req_create sid opts now) w =
     (case createSession drv sid opts now w of (r, w') \<Rightarrow> (Ans_created r, w'))"
| "serve drv (Req_get sid) w = (Ans_got (getSession sid w), w)"
| "serve drv (Req_kill sid) w =
     (case killSession drv sid w of (b, w') \<Rightarrow> (Ans_killed b, w'))"

fun serve_all :: "driver \<Rightarrow> request list \<Rightarrow> world \<Rightarrow> answer list \<times> world" where
  "serve_all drv [] w = ([], w)"
| "serve_all drv (r # rs) w =
     (case serve drv r w of
        (a, w1) \<Rightarrow> (case serve_all drv rs w1 of (as, w2) \<Rightarrow> (a # as, w2)))"

text \<open>
  killSession(sessionId) with the requests \<open>reqs\<close> served while it awaits
  \<^verbatim>\<open>close()\<close>: the lookup of line 116, the invocation of line 120, the requests, the
  settling of the promise, and only then the delete of line 125. The result carries the
  answers given to the requests. An id that is absent returns false without any await, so
  nothing is served.
\<close>

definition killSession_served ::
  "driver \<Rightarrow> string \<Rightarrow> request list \<Rightarrow> world \<Rightarrow> (bool \<times> answer list) \<times> world" where
  "killSession_served drv sid reqs w =
     (case Map_get (sessions w) sid of
        None \<Rightarrow> ((False, []), w)
      | Some s \<Rightarrow>
          (case serve_all drv reqs (close_invoked s w) of
             (answers, w2) \<Rightarrow>
               (let w3 = close_settled drv sid s w2
                in ((True, answers), w3\<lparr>sessions := Map_delete sid (sessions w3)\<rparr>))))"

text \<open>
  cleanup(): the loop of lines 142 to 144 walks the Map while killSession deletes from it
  and while other requests add to it. A Map iterator is live: it yields the first entry
  that lies behind the ones it has yielded, entries set meanwhile included. Every entry
  the loop has yielded is deleted by line 125 before the loop asks for the next one, and a
  new key is appended at the end, so the entry yielded next is always the first entry of
  the Map, and the loop ends when the Map is empty. \<open>sched\<close> lists, await by await, the
  requests served while the loop is suspended; when it is used up nothing more is served.
\<close>

function cleanup_loop :: "driver \<Rightarrow> request list list \<Rightarrow> world \<Rightarrow> world" where
  "cleanup_loop drv sched w =
     (case sessions w of
        [] \<Rightarrow> w
      | e # rest \<Rightarrow>
          (case sched of
             [] \<Rightarrow> cleanup_loop drv [] (snd (killSession_served drv (fst e) [] w))
           | reqs # sched' \<Rightarrow>
               cleanup_loop drv sched' (snd (killSession_served drv (fst e) reqs w))))"
  by pat_completeness auto
termination
proof (relation "measures [\<lambda>(drv, sched, w). length sched, \<lambda>(drv, sched, w). length (sessions w)]")
  show "wf (measures [\<lambda>(drv, sched, w). length sched,
                      \<lambda>(drv :: driver, sched :: request list list, w). length (sessions w)])"
    by simp
next
  fix drv :: driver and sched :: "request list list" and w :: world and e rest
  assume "sessions w = e # rest" and "sched = []"
  then have "length (sessions (snd (killSession_served drv (fst e) [] w))) < length (sessions w)"
    by (cases e)
       (simp add: killSession_served_def Map_get_def Map_delete_def close_settled_def
          close_invoked_def Let_def le_imp_less_Suc split: option.splits)
  then show "((drv, [], snd (killSession_served drv (fst e) [] w)), drv, sched, w)
      \<in> measures [\<lambda>(drv, sched, w). length sched, \<lambda>(drv, sched, w). length (sessions w)]"
    using \<open>sched = []\<close> by simp
next
  fix drv :: driver and sched :: "request list list" and w :: world and e rest reqs sched'
  assume "sched = reqs # sched'"
  then show "((drv, sched', snd (killSession_served drv (fst e) reqs w)), drv, sched, w)
      \<in> measures [\<lambda>(drv, sched, w). length sched, \<lambda>(drv, sched, w). length (sessions w)]"
    by simp
qed

definition cleanup_served :: "driver \<Rightarrow> request list list \<Rightarrow> world \<Rightarrow> world" where
  "cleanup_served drv sched w =
     (let w1 = w\<lparr>console := console w @ [Log_cleaning_up (Map_size (sessions w))]\<rparr>
      in cleanup_loop drv sched w1)"

text \<open>cleanup() with nothing served during its awaits.\<close>

definition cleanup :: "driver \<Rightarrow> world \<Rightarrow> world" where
  "cleanup drv w = cleanup_served drv [] w"

subsection \<open>The HTTP shell\<close>

text \<open>
  The answers of the handlers: 201 with the id, endpoint (sent a second time as
  \<^verbatim>\<open>cdpUrl\<close>), creation time and status of the new session; 500 with the message of the
  error that was thrown; 404 for an id that is not registered; 200 for a session that was
  killed.
\<close>

datatype response =
    Created created_info
  | Server_error string
  | Not_found
  | Terminated string

text \<open>
  What \<^verbatim>\<open>await c.req.json().catch(() => ({}))\<close> yields: parsing fails and the
  \<^verbatim>\<open>catch\<close> gives the empty object; or the body is the JSON value null; or it is an
  object with the four fields. (A number, a string, a boolean or an array has none of the
  four fields and behaves as the empty object.)
\<close>

datatype json_body =
    Body_unparsable
  | Body_null
  | Body_object create_options

definition empty_body :: create_options where
  "empty_body = \<lparr>opt_headless = None, opt_proxy = None, opt_viewport = None,
                 opt_userAgent = None\<rparr>"

text \<open>The message of the TypeError that Node throws when \<^verbatim>\<open>body.headless\<close> is read
  from null.\<close>

definition null_body_message :: string where
  "null_body_message = ''Cannot read properties of null (reading 'headless')''"

text \<open>Lines 57 to 60: the options that the handler passes on.\<close>

definition post_options :: "create_options \<Rightarrow> create_options" where
  "post_options body =
     \<lparr>opt_headless = Some (case opt_headless body of None \<Rightarrow> True | Some b \<Rightarrow> b),
      opt_proxy = opt_proxy body,
      opt_viewport = Some (case opt_viewport body of None \<Rightarrow> default_viewport | Some v \<Rightarrow> v),
      opt_userAgent =
        (case opt_userAgent body of
           None \<Rightarrow> None
         | Some ua \<Rightarrow> if ua = [] then None else Some ua)\<rparr>"

text \<open>
  POST /sessions. \<open>nano\<close> is what \<^verbatim>\<open>nanoid(16)\<close> returns: the generator is a library
  outside the repository, and its output is an input of the model. With the body null,
  building the argument of createSession throws after the first line is logged, and the
  \<^verbatim>\<open>catch\<close> answers 500 without any launch.
\<close>

definition post_sessions ::
  "driver \<Rightarrow> string \<Rightarrow> json_body \<Rightarrow> string \<Rightarrow> world \<Rightarrow> response \<times> world" where
  "post_sessions drv nano body now w =
     (let sid = ''sess_'' @ nano;
          w1 = w\<lparr>console := console w @ [Log_creating sid]\<rparr>
      in case body of
           Body_null \<Rightarrow>
             (Server_error null_body_message,
              w1\<lparr>console := console w1 @ [Log_create_failed null_body_message]\<rparr>)
         | _ \<Rightarrow>
             (let b = (case body of Body_object b \<Rightarrow> b | _ \<Rightarrow> empty_body)
              in case createSession drv sid (post_options b) now w1 of
                   (Inr s, w2) \<Rightarrow>
                     (Created s,
                      w2\<lparr>console := console w2 @ [Log_created sid (c_wsEndpoint s)]\<rparr>)
                 | (Inl err, w2) \<Rightarrow>
                     (Server_error err,
                      w2\<lparr>console := console w2 @ [Log_create_failed err]\<rparr>)))"

text \<open>DELETE /sessions/:id.\<close>

definition delete_sessions_id :: "driver \<Rightarrow> string \<Rightarrow> world \<Rightarrow> response \<times> world" where
  "delete_sessions_id drv sid w =
     (let w1 = w\<lparr>console := console w @ [Log_killing sid]\<rparr>
      in case killSession drv sid w1 of
           (False, w2) \<Rightarrow> (Not_found, w2)
         | (True, w2) \<Rightarrow> (Terminated sid, w2\<lparr>console := console w2 @ [Log_killed sid]\<rparr>))"

text \<open>The handler of SIGINT and SIGTERM, with the requests served during the awaits of
  cleanup.\<close>

definition shutdown :: "driver \<Rightarrow> request list list \<Rightarrow> world \<Rightarrow> world" where
  "shutdown drv sched w =
     (let w1 = w\<lparr>console := console w @ [Log_shutting_down]\<rparr>;
          w2 = cleanup_served drv sched w1
      in w2\<lparr>exit_code := Some 0\<rparr>)"

subsection \<open>Runs of the registry\<close>

text \<open>The calls that change the registry, and the state after a sequence of them made on
  the empty registry.\<close>

datatype call =
    Call_create string create_options string
  | Call_kill string
  | Call_cleanup

fun step :: "driver \<Rightarrow> world \<Rightarrow> call \<Rightarrow> world" where
  "step drv w (Call_create sid opts now) = snd (createSession drv sid opts now w)"
| "step drv w (Call_kill sid) = snd (killSession drv sid w)"
| "step drv w Call_cleanup = cleanup drv w"

definition run :: "driver \<Rightarrow> call list \<Rightarrow> world \<Rightarrow> world" where
  "run drv cs w = foldl (step drv) w cs"

text \<open>The ids under which a sequence of calls creates sessions.\<close>

fun created_ids :: "call list \<Rightarrow> string list" where
  "created_ids [] = []"
| "created_ids (Call_create sid opts now # cs) = sid # created_ids cs"
| "created_ids (c # cs) = created_ids cs"

subsection \<open>Runs of the service\<close>

text \<open>
  The requests that reach the process, served one after the other. Once the shutdown
  handler has called \<^verbatim>\<open>process.exit\<close>, nothing is served any more.
\<close>

datatype http_call =
    Http_post string json_body string
  | Http_delete string
  | Http_shutdown

definition http_step :: "driver \<Rightarrow> world \<Rightarrow> http_call \<Rightarrow> world" where
  "http_step drv w c =
     (if exit_code w \<noteq> None then w
      else case c of
             Http_post nano body now \<Rightarrow> snd (post_sessions drv nano body now w)
           | Http_delete sid \<Rightarrow> snd (delete_sessions_id drv sid w)
           | Http_shutdown \<Rightarrow> shutdown drv [] w)"

definition http_run :: "driver \<Rightarrow> http_call list \<Rightarrow> world \<Rightarrow> world" where
  "http_run drv cs w = foldl (http_step drv) w cs"

text \<open>The strings that the id generator returns in the POST requests of a sequence.\<close>

fun draws :: "http_call list \<Rightarrow> string list" where
  "draws [] = []"
| "draws (Http_post nano body now # cs) = nano # draws cs"
| "draws (c # cs) = draws cs"

text \<open>
  The ids of the sessions that a sequence of requests creates, one for each POST answered
  201, and the server objects stored for them.
\<close>

fun assigned :: "driver \<Rightarrow> http_call list \<Rightarrow> world \<Rightarrow> (string \<times> nat) list" where
  "assigned drv [] w = []"
| "assigned drv (c # cs) w =
     (if exit_code w \<noteq> None then []
      else (case c of
              Http_post nano body now \<Rightarrow>
                (case post_sessions drv nano body now w of
                   (Created info, w') \<Rightarrow>
                     (case Map_get (sessions w') (c_sessionId info) of
                        None \<Rightarrow> []
                      | Some s \<Rightarrow> [(c_sessionId info, server s)])
                 | _ \<Rightarrow> [])
            | _ \<Rightarrow> [])
           @ assigned drv cs (http_step drv w c))"

text \<open>The same state with every stored server object replaced by another one.\<close>

definition rename_servers :: "(nat \<Rightarrow> nat) \<Rightarrow> world \<Rightarrow> world" where
  "rename_servers f w = w\<lparr>sessions := map (\<lambda>(sid, s). (sid, s\<lparr>server := f (server s)\<rparr>)) (sessions w)\<rparr>"


subsection \<open>Concrete drivers, options and states\<close>

text \<open>A driver whose launches and closes all succeed, one whose \<^verbatim>\<open>close()\<close> always
  rejects, and one whose launches always reject.\<close>

definition ok_driver :: driver where
  "ok_driver = \<lparr>launchServer = (\<lambda>n lo. Inr (''ws://127.0.0.1:9222/'' @ show_nat n)),
                close = (\<lambda>h. None)\<rparr>"

definition failing_close_driver :: driver where
  "failing_close_driver = \<lparr>launchServer = launchServer ok_driver,
                           close = (\<lambda>h. Some ''Target closed'')\<rparr>"

definition failing_launch_driver :: driver where
  "failing_launch_driver = \<lparr>launchServer = (\<lambda>n lo. Inl ''Failed to launch chromium''),
                            close = (\<lambda>h. None)\<rparr>"

definition opts_a :: create_options where
  "opts_a = \<lparr>opt_headless = Some False,
             opt_proxy = Some \<lparr>proxy_server = ''http://proxy-a:8080'',
                               proxy_username = Some ''alice'',
                               proxy_password = Some ''secret''\<rparr>,
             opt_viewport = Some \<lparr>width = 800, height = 600\<rparr>,
             opt_userAgent = None\<rparr>"

definition opts_b :: create_options where
  "opts_b = \<lparr>opt_headless = Some False,
             opt_proxy = Some \<lparr>proxy_server = ''http://proxy-b:3128'',
                               proxy_username = None,
                               proxy_password = None\<rparr>,
             opt_viewport = Some \<lparr>width = 800, height = 600\<rparr>,
             opt_userAgent = None\<rparr>"

definition one_session :: session where
  "one_session = \<lparr>server = 0, wsEndpoint = ''ws://127.0.0.1:9222/0'',
                  createdAt = ''2026-01-29T00:00:00.000Z'', status = ''active'',
                  options = \<lparr>headless = False, proxy = True,
                             viewport = \<lparr>width = 800, height = 600\<rparr>\<rparr>\<rparr>"

definition one_world :: world where
  "one_world = \<lparr>sessions = [(''s1'', one_session)], launched = 1, closed = [], console = [],
                exit_code = None\<rparr>"

text \<open>A registry with two sessions at the moment the shutdown handler has written its
  first line.\<close>

definition two_world :: world where
  "two_world = \<lparr>sessions = [(''s1'', one_session),
                 (''s2'', \<lparr>server = 1, wsEndpoint = ''ws://127.0.0.1:9222/1'',
                           createdAt = ''2026-01-29T00:00:05.000Z'', status = ''active'',
                           options = \<lparr>headless = True, proxy = False,
                                      viewport = \<lparr>width = 1920, height = 1080\<rparr>\<rparr>\<rparr>)],
                launched = 2, closed = [], console = [Log_shutting_down], exit_code = None\<rparr>"

section \<open>Properties\<close>

subsection \<open>The Map operations\<close>

lemma Map_get_set: "Map_get (Map_set k v m) k' = (if k' = k then Some v else Map_get m k')"
  by (induction m) (auto simp: Map_get_def)

lemma Map_get_delete: "Map_get (Map_delete k m) k' = (if k' = k then None else Map_get m k')"
  by (induction m) (auto simp: Map_get_def Map_delete_def)

lemma Map_get_None: "(Map_get m k = None) = (k \<notin> fst ` set m)"
  by (simp add: Map_get_def map_of_eq_None_iff)

lemma Map_delete_absent: "Map_get m k = None \<Longrightarrow> Map_delete k m = m"
  by (induction m) (auto simp: Map_get_def Map_delete_def split: if_splits)












subsection \<open>The operations of BrowserManager\<close>

lemma sessions_createSession_Inl:
  "launchServer drv (launched w) (launch_options_of opts) = Inl err \<Longrightarrow>
   createSession drv sid opts now w = (Inl err, w\<lparr>launched := Suc (launched w)\<rparr>)"
  by (simp add: createSession_def)

lemma createSession_Inr:
  "launchServer drv (launched w) (launch_options_of opts) = Inr ep \<Longrightarrow>
   createSession drv sid opts now w =
     (Inr \<lparr>c_sessionId = sid, c_wsEndpoint = ep, c_createdAt = now, c_status = ''active''\<rparr>,
      w\<lparr>launched := Suc (launched w),
        sessions := Map_set sid \<lparr>server = launched w, wsEndpoint = ep, createdAt = now,
                     status = ''active'', options = stored_options opts\<rparr> (sessions w)\<rparr>)"
  by (simp add: createSession_def Let_def)

lemma sessions_close_server: "sessions (close_server drv sid s w) = sessions w"
  by (simp add: close_server_def close_settled_def close_invoked_def split: option.splits)

lemma launched_close_server: "launched (close_server drv sid s w) = launched w"
  by (simp add: close_server_def close_settled_def close_invoked_def split: option.splits)


lemma sessions_killSession: "sessions (snd (killSession drv sid w)) = Map_delete sid (sessions w)"
  by (simp add: killSession_def Let_def sessions_close_server Map_delete_absent split: option.splits)

lemma launched_killSession: "launched (snd (killSession drv sid w)) = launched w"
  by (simp add: killSession_def Let_def launched_close_server split: option.splits)

lemma fst_killSession: "fst (killSession drv sid w) = (Map_get (sessions w) sid \<noteq> None)"
  by (simp add: killSession_def Let_def split: option.splits)

lemma killSession_served_Nil:
  "killSession_served drv sid [] w = ((fst (killSession drv sid w), []), snd (killSession drv sid w))"
  by (simp add: killSession_served_def killSession_def close_server_def Let_def
      split: option.splits)

declare cleanup_loop.simps [simp del]

lemma cleanup_loop_empty: "sessions w = [] \<Longrightarrow> cleanup_loop drv sched w = w"
  by (subst cleanup_loop.simps) simp

lemma cleanup_loop_Nil:
  "sessions w = e # rest \<Longrightarrow>
   cleanup_loop drv [] w = cleanup_loop drv [] (snd (killSession drv (fst e) w))"
  by (subst cleanup_loop.simps) (simp add: killSession_served_Nil)

lemma cleanup_loop_Cons:
  "sessions w = e # rest \<Longrightarrow>
   cleanup_loop drv (reqs # sched) w =
   cleanup_loop drv sched (snd (killSession_served drv (fst e) reqs w))"
  by (subst cleanup_loop.simps) simp

lemma sessions_cleanup_loop: "sessions (cleanup_loop drv sched w) = []"
proof (induction drv sched w rule: cleanup_loop.induct)
  case (1 drv sched w)
  show ?case
  proof (cases "sessions w")
    case Nil
    then show ?thesis by (simp add: cleanup_loop_empty)
  next
    case (Cons e rest)
    show ?thesis
    proof (cases sched)
      case Nil
      with Cons "1.IH"(1) show ?thesis
        by (simp add: cleanup_loop_Nil killSession_served_Nil)
    next
      case (Cons reqs sched')
      with \<open>sessions w = e # rest\<close> "1.IH"(2) show ?thesis
        by (simp add: cleanup_loop_Cons)
    qed
  qed
qed

lemma launched_cleanup_loop_Nil:
  "sched = [] \<Longrightarrow> launched (cleanup_loop drv sched w) = launched w"
proof (induction drv sched w rule: cleanup_loop.induct)
  case (1 drv sched w)
  show ?case
  proof (cases "sessions w")
    case Nil
    then show ?thesis by (simp add: cleanup_loop_empty)
  next
    case (Cons e rest)
    with "1.IH"(1) "1.prems" show ?thesis
      by (simp add: cleanup_loop_Nil killSession_served_Nil launched_killSession)
  qed
qed

lemma sessions_cleanup_served: "sessions (cleanup_served drv sched w) = []"
  by (simp add: cleanup_served_def Let_def sessions_cleanup_loop)

lemma sessions_cleanup: "sessions (cleanup drv w) = []"
  by (simp add: cleanup_def sessions_cleanup_served)

lemma launched_cleanup: "launched (cleanup drv w) = launched w"
  by (simp add: cleanup_def cleanup_served_def Let_def launched_cleanup_loop_Nil)

lemma Map_get_rename:
  "Map_get (map (\<lambda>(sid, s). (sid, s\<lparr>server := f (server s)\<rparr>)) m) k =
   map_option (\<lambda>s. s\<lparr>server := f (server s)\<rparr>) (Map_get m k)"
  by (induction m) (auto simp: Map_get_def)







lemma absent_step:
  "Map_get (sessions w) sid = None \<Longrightarrow> sid \<notin> set (created_ids [c]) \<Longrightarrow>
   Map_get (sessions (step drv w c)) sid = None"
proof (cases c)
  case (Call_create sid' opts now)
  assume a: "Map_get (sessions w) sid = None" and n: "sid \<notin> set (created_ids [c])"
  from n Call_create have ne: "sid \<noteq> sid'" by simp
  show ?thesis
  proof (cases "launchServer drv (launched w) (launch_options_of opts)")
    case (Inl err)
    with a Call_create show ?thesis by (simp add: sessions_createSession_Inl)
  next
    case (Inr ep)
    with a ne Call_create show ?thesis by (simp add: createSession_Inr Map_get_set)
  qed
next
  case (Call_kill sid')
  assume "Map_get (sessions w) sid = None"
  with Call_kill show ?thesis by (simp add: sessions_killSession Map_get_delete)
next
  case Call_cleanup
  then show ?thesis by (simp add: sessions_cleanup Map_get_def)
qed

lemma created_ids_Cons: "set (created_ids (c # cs)) = set (created_ids [c]) \<union> set (created_ids cs)"
  by (cases c) auto

lemma absent_run:
  "Map_get (sessions w) sid = None \<Longrightarrow> sid \<notin> set (created_ids cs) \<Longrightarrow>
   Map_get (sessions (run drv cs w)) sid = None"
proof (induction cs arbitrary: w)
  case Nil
  then show ?case by (simp add: run_def)
next
  case (Cons c cs)
  from Cons.prems have "Map_get (sessions (step drv w c)) sid = None"
    by (intro absent_step) (simp_all add: created_ids_Cons [of c cs])
  moreover from Cons.prems have "sid \<notin> set (created_ids cs)"
    by (simp add: created_ids_Cons [of c cs])
  ultimately have "Map_get (sessions (run drv cs (step drv w c))) sid = None"
    by (rule Cons.IH)
  then show ?case by (simp add: run_def)
qed


subsection \<open>The handlers\<close>





lemma absent_post_sessions:
  "Map_get (sessions w) sid = None \<Longrightarrow> sid \<noteq> ''sess_'' @ nano \<Longrightarrow>
   Map_get (sessions (snd (post_sessions drv nano body now w))) sid = None"
  by (auto simp: post_sessions_def createSession_def Let_def Map_get_set
      split: json_body.splits sum.splits prod.splits)

lemma sessions_delete_sessions_id:
  "sessions (snd (delete_sessions_id drv sid w)) = Map_delete sid (sessions w)"
proof -
  let ?w1 = "w\<lparr>console := console w @ [Log_killing sid]\<rparr>"
  have "sessions (snd (killSession drv sid ?w1)) = Map_delete sid (sessions w)"
    by (simp add: sessions_killSession)
  then show ?thesis
    by (cases "killSession drv sid ?w1"; cases "fst (killSession drv sid ?w1)")
       (simp_all add: delete_sessions_id_def Let_def)
qed


lemma sessions_shutdown: "sessions (shutdown drv sched w) = []"
  by (simp add: shutdown_def Let_def sessions_cleanup_served)





lemma draws_Cons: "set (draws (c # cs)) = set (draws [c]) \<union> set (draws cs)"
  by (cases c) auto

lemma draws_append: "draws (cs1 @ cs2) = draws cs1 @ draws cs2"
  by (induction cs1 rule: draws.induct) simp_all

lemma absent_http_step:
  assumes "Map_get (sessions w) sid = None" and "sid \<notin> (\<lambda>n. ''sess_'' @ n) ` set (draws [c])"
  shows "Map_get (sessions (http_step drv w c)) sid = None"
proof (cases c)
  case (Http_post nano body now)
  with assms show ?thesis
    by (simp add: http_step_def absent_post_sessions)
next
  case (Http_delete sid')
  with assms show ?thesis
    by (simp add: http_step_def sessions_delete_sessions_id Map_get_delete)
next
  case Http_shutdown
  with assms show ?thesis
    by (simp add: http_step_def sessions_shutdown Map_get_def)
qed

lemma absent_http_run:
  "Map_get (sessions w) sid = None \<Longrightarrow> sid \<notin> (\<lambda>n. ''sess_'' @ n) ` set (draws cs) \<Longrightarrow>
   Map_get (sessions (http_run drv cs w)) sid = None"
proof (induction cs arbitrary: w)
  case Nil
  then show ?case by (simp add: http_run_def)
next
  case (Cons c cs)
  from Cons.prems have "Map_get (sessions (http_step drv w c)) sid = None"
    by (intro absent_http_step) (auto simp: draws_Cons [of c cs])
  moreover from Cons.prems have "sid \<notin> (\<lambda>n. ''sess_'' @ n) ` set (draws cs)"
    by (auto simp: draws_Cons [of c cs])
  ultimately have "Map_get (sessions (http_run drv cs (http_step drv w c))) sid = None"
    by (rule Cons.IH)
  then show ?case by (simp add: http_run_def)
qed

lemma assigned_Cons:
  "exit_code w = None \<Longrightarrow>
   assigned drv (c # cs) w =
     (case c of
        Http_post nano body now \<Rightarrow>
          (case post_sessions drv nano body now w of
             (Created info, w') \<Rightarrow>
               (case Map_get (sessions w') (c_sessionId info) of
                  None \<Rightarrow> []
                | Some s \<Rightarrow> [(c_sessionId info, server s)])
           | _ \<Rightarrow> [])
      | _ \<Rightarrow> [])
     @ assigned drv cs (http_step drv w c)"
  by simp



declare assigned.simps(2) [simp del]





subsection \<open>Evaluating the examples\<close>

declare show_nat.simps [simp del]

lemma show_nat_0: "show_nat 0 = ''0''"
  by code_simp

lemma show_nat_1: "show_nat (Suc 0) = ''1''"
  by code_simp

lemma show_nat_2: "show_nat 2 = ''2''"
  by code_simp

lemma one_world_created:
  "snd (createSession ok_driver ''s1'' opts_a ''2026-01-29T00:00:00.000Z'' init_world) = one_world"
  by (simp add: createSession_def ok_driver_def Let_def init_world_def one_world_def
      one_session_def stored_options_def opts_a_def show_nat_0)


lemmas example_defs = createSession_def killSession_def close_server_def close_invoked_def
  getSession_def
  listSessions_def info_of_def getActiveCount_def Map_get_def Map_delete_def Map_size_def
  ok_driver_def failing_close_driver_def failing_launch_driver_def opts_a_def opts_b_def
  one_session_def one_world_def init_world_def stored_options_def default_viewport_def
  empty_body_def post_options_def post_sessions_def Let_def show_nat_0 show_nat_1 show_nat_2 run_def
  close_settled_def two_world_def

subsection \<open>Session ids and server handles\<close>



subsection \<open>Create, then get\<close>

text \<open>
  Claim C2 as stated fails: the proxy descriptor is not stored. Line 61 keeps
  \<^verbatim>\<open>proxy: !!proxy\<close>, so two requests that name different proxies (and credentials)
  leave the same stored options, in which the proxy is the flag \<open>True\<close>.
\<close>

theorem proxy_descriptor_not_stored:
  "opt_proxy opts_a \<noteq> opt_proxy opts_b \<and>
   getSession ''s1'' (snd (createSession ok_driver ''s1'' opts_a ''2026-01-29T00:00:00.000Z'' init_world)) =
     Some \<lparr>sessionId = ''s1'', info_wsEndpoint = ''ws://127.0.0.1:9222/0'',
           info_createdAt = ''2026-01-29T00:00:00.000Z'', info_status = ''active'',
           info_options = \<lparr>headless = False, proxy = True,
                            viewport = \<lparr>width = 800, height = 600\<rparr>\<rparr>\<rparr> \<and>
   getSession ''s1'' (snd (createSession ok_driver ''s1'' opts_b ''2026-01-29T00:00:00.000Z'' init_world)) =
   getSession ''s1'' (snd (createSession ok_driver ''s1'' opts_a ''2026-01-29T00:00:00.000Z'' init_world))"
  by (simp add: example_defs)

text \<open>
  Claim C2, amended. When the driver's launch succeeds with endpoint \<open>ep\<close>,
  createSession(id, options) followed at once by getSession(id) returns a session whose
  options hold the requested headless flag (true when unset), a flag telling whether a
  proxy was requested, and the requested viewport (1920 by 1080 when unset); its status is
  the string active and its endpoint is \<open>ep\<close>, the one the driver reported, hence
  non-empty whenever the driver's endpoint is. Nothing is said about the user agent.
\<close>

theorem create_then_get:
  assumes "launchServer drv (launched w) (launch_options_of opts) = Inr ep"
  shows "fst (createSession drv sid opts now w) =
           Inr \<lparr>c_sessionId = sid, c_wsEndpoint = ep, c_createdAt = now, c_status = ''active''\<rparr> \<and>
         getSession sid (snd (createSession drv sid opts now w)) =
           Some \<lparr>sessionId = sid, info_wsEndpoint = ep, info_createdAt = now,
                 info_status = ''active'',
                 info_options =
                   \<lparr>headless = (case opt_headless opts of None \<Rightarrow> True | Some b \<Rightarrow> b),
                    proxy = (opt_proxy opts \<noteq> None),
                    viewport = (case opt_viewport opts of
                                  None \<Rightarrow> \<lparr>width = 1920, height = 1080\<rparr>
                                | Some v \<Rightarrow> v)\<rparr>\<rparr> \<and>
         (ep \<noteq> [] \<longrightarrow>
            map_option info_wsEndpoint (getSession sid (snd (createSession drv sid opts now w)))
              \<noteq> Some [])"
  using assms
  by (simp add: createSession_Inr getSession_def Map_get_set info_of_def stored_options_def
      default_viewport_def split: option.splits)

text \<open>The amended claim C2 at a second session, created with a proxy.\<close>

theorem create_then_get_witness:
  "launchServer ok_driver (launched one_world) (launch_options_of opts_b) =
     Inr ''ws://127.0.0.1:9222/1'' \<and>
   ''ws://127.0.0.1:9222/1'' \<noteq> [] \<and>
   getSession ''s2'' (snd (createSession ok_driver ''s2'' opts_b ''2026-01-29T00:00:05.000Z'' one_world)) =
     Some \<lparr>sessionId = ''s2'', info_wsEndpoint = ''ws://127.0.0.1:9222/1'',
           info_createdAt = ''2026-01-29T00:00:05.000Z'', info_status = ''active'',
           info_options = \<lparr>headless = False, proxy = True,
                            viewport = \<lparr>width = 800, height = 600\<rparr>\<rparr>\<rparr>"
  using create_then_get [of ok_driver one_world opts_b "''ws://127.0.0.1:9222/1''" "''s2''"
      "''2026-01-29T00:00:05.000Z''"]
  by (simp add: example_defs)

subsection \<open>Termination when the driver fails\<close>

text \<open>
  Claim C3. For every id present in the registry, killSession(id) returns true and removes
  the entry, whatever \<^verbatim>\<open>close()\<close> answers; when it rejects, the rejection is written to
  the console and goes no further.
\<close>

theorem kill_removes_despite_close_error:
  assumes "Map_get (sessions w) sid = Some s"
  shows "fst (killSession drv sid w) = True \<and>
         sessions (snd (killSession drv sid w)) = Map_delete sid (sessions w) \<and>
         getSession sid (snd (killSession drv sid w)) = None \<and>
         (close drv (server s) = Some msg \<longrightarrow>
            console (snd (killSession drv sid w)) = console w @ [Log_close_error sid msg])"
  using assms
  by (simp add: fst_killSession sessions_killSession getSession_def Map_get_delete)
     (simp add: killSession_def close_server_def close_settled_def close_invoked_def Let_def)

text \<open>Claim C3 at a driver whose \<^verbatim>\<open>close()\<close> rejects.\<close>

theorem kill_removes_despite_close_error_witness:
  "Map_get (sessions one_world) ''s1'' = Some one_session \<and>
   close failing_close_driver (server one_session) = Some ''Target closed'' \<and>
   killSession failing_close_driver ''s1'' one_world =
     (True, \<lparr>sessions = [], launched = 1, closed = [0],
             console = [Log_close_error ''s1'' ''Target closed''], exit_code = None\<rparr>) \<and>
   getSession ''s1'' (snd (killSession failing_close_driver ''s1'' one_world)) = None"
  using kill_removes_despite_close_error [of one_world "''s1''" one_session failing_close_driver
      "''Target closed''"]
  by (simp add: example_defs)

subsection \<open>Shutdown\<close>




subsection \<open>After a successful termination\<close>

text \<open>
  Claim C5. The ids come from the generator of the POST handler, which is outside the
  repository; that it is free of collisions is the hypothesis that the strings it returns
  over the whole life of the process are pairwise distinct. Then, once killSession(id) has returned true in a state that the requests
  \<open>hs1\<close> have built, getSession(id) reports not found at once, and still does after any
  further requests \<open>hs2\<close>: the session is never visible again.
\<close>

theorem killed_stays_absent:
  assumes "distinct (draws (hs1 @ hs2))"
    and "fst (killSession drv sid (http_run drv hs1 init_world)) = True"
  shows "getSession sid (snd (killSession drv sid (http_run drv hs1 init_world))) = None \<and>
         getSession sid
           (http_run drv hs2 (snd (killSession drv sid (http_run drv hs1 init_world)))) = None"
proof -
  let ?w = "http_run drv hs1 init_world"
  have init: "Map_get (sessions init_world) sid = None"
    by (simp add: init_world_def Map_get_def)
  from assms(2) have present: "Map_get (sessions ?w) sid \<noteq> None"
    by (simp add: fst_killSession)
  have "sid \<in> (\<lambda>n. ''sess_'' @ n) ` set (draws hs1)"
  proof (rule ccontr)
    assume "sid \<notin> (\<lambda>n. ''sess_'' @ n) ` set (draws hs1)"
    from absent_http_run [OF init this] present show False by simp
  qed
  then obtain n where sid: "sid = ''sess_'' @ n" and n: "n \<in> set (draws hs1)"
    by blast
  from assms(1) n have "n \<notin> set (draws hs2)"
    by (auto simp: draws_append)
  with sid have fresh: "sid \<notin> (\<lambda>n. ''sess_'' @ n) ` set (draws hs2)"
    by auto
  have gone: "Map_get (sessions (snd (killSession drv sid ?w))) sid = None"
    by (simp add: sessions_killSession Map_get_delete)
  from absent_http_run [OF gone fresh] gone show ?thesis
    by (simp add: getSession_def)
qed

text \<open>Claim C5 at a session created by a POST, killed, and followed by another POST, a
  DELETE of the same id and the shutdown.\<close>

theorem killed_stays_absent_witness:
  "distinct (draws ([Http_post ''V1StGXR8_Z5jdHi6'' (Body_object opts_a) ''2026-01-29T00:00:00.000Z''] @
                    [Http_post ''3kTMd0_pQx7LbWzE'' (Body_object opts_b) ''2026-01-29T00:00:05.000Z'',
                     Http_delete ''sess_V1StGXR8_Z5jdHi6'', Http_shutdown])) \<and>
   fst (killSession ok_driver ''sess_V1StGXR8_Z5jdHi6''
         (http_run ok_driver [Http_post ''V1StGXR8_Z5jdHi6'' (Body_object opts_a) ''2026-01-29T00:00:00.000Z'']
            init_world)) = True \<and>
   getSession ''sess_V1StGXR8_Z5jdHi6''
     (http_run ok_driver
        [Http_post ''3kTMd0_pQx7LbWzE'' (Body_object opts_b) ''2026-01-29T00:00:05.000Z'',
         Http_delete ''sess_V1StGXR8_Z5jdHi6'', Http_shutdown]
        (snd (killSession ok_driver ''sess_V1StGXR8_Z5jdHi6''
               (http_run ok_driver [Http_post ''V1StGXR8_Z5jdHi6'' (Body_object opts_a) ''2026-01-29T00:00:00.000Z'']
                  init_world)))) = None"
  using killed_stays_absent [of "[Http_post ''V1StGXR8_Z5jdHi6'' (Body_object opts_a) ''2026-01-29T00:00:00.000Z'']"
      "[Http_post ''3kTMd0_pQx7LbWzE'' (Body_object opts_b) ''2026-01-29T00:00:05.000Z'',
        Http_delete ''sess_V1StGXR8_Z5jdHi6'', Http_shutdown]"
      ok_driver "''sess_V1StGXR8_Z5jdHi6''"]
  by (simp add: fst_killSession http_run_def http_step_def post_sessions_def createSession_def
      ok_driver_def init_world_def Map_get_def Let_def)

subsection \<open>A launch that fails\<close>

text \<open>
  Claim C6. When the driver's launch fails, createSession fails with the driver's error
  and inserts nothing: the Map, and with it every answer of getSession, listSessions and
  getActiveCount, is as before, and no server is closed. (The model's count of launch
  attempts is a fact about the driver, not about the registry.)
\<close>

theorem create_atomic_on_launch_failure:
  assumes "launchServer drv (launched w) (launch_options_of opts) = Inl err"
  shows "fst (createSession drv sid opts now w) = Inl err \<and>
         sessions (snd (createSession drv sid opts now w)) = sessions w \<and>
         getSession sid' (snd (createSession drv sid opts now w)) = getSession sid' w \<and>
         listSessions (snd (createSession drv sid opts now w)) = listSessions w \<and>
         getActiveCount (snd (createSession drv sid opts now w)) = getActiveCount w \<and>
         closed (snd (createSession drv sid opts now w)) = closed w"
  using assms
  by (simp add: sessions_createSession_Inl getSession_def listSessions_def getActiveCount_def)

text \<open>Claim C6 at a driver whose launches reject.\<close>

theorem create_atomic_on_launch_failure_witness:
  "launchServer failing_launch_driver (launched one_world) (launch_options_of opts_b) =
     Inl ''Failed to launch chromium'' \<and>
   createSession failing_launch_driver ''s2'' opts_b ''2026-01-29T00:00:05.000Z'' one_world =
     (Inl ''Failed to launch chromium'', one_world\<lparr>launched := 2\<rparr>) \<and>
   getSession ''s2'' (snd (createSession failing_launch_driver ''s2'' opts_b
                             ''2026-01-29T00:00:05.000Z'' one_world)) = None"
  using create_atomic_on_launch_failure [of failing_launch_driver one_world opts_b
      "''Failed to launch chromium''" "''s2''" "''2026-01-29T00:00:05.000Z''" "''s2''"]
  by (simp add: example_defs)

subsection \<open>Ids that are not registered\<close>

text \<open>
  Claim C7. For an id that is not in the registry, killSession returns false and changes
  nothing, and getSession reports not found; a second killSession for the same id returns
  false; and an id under which no session was ever created is not in the registry.
\<close>

theorem absent_id_not_found:
  "(Map_get (sessions w) sid = None \<longrightarrow>
      killSession drv sid w = (False, w) \<and> getSession sid w = None) \<and>
   fst (killSession drv sid (snd (killSession drv sid w))) = False \<and>
   (sid \<notin> set (created_ids cs) \<longrightarrow>
      getSession sid (run drv cs init_world) = None \<and>
      killSession drv sid (run drv cs init_world) = (False, run drv cs init_world))"
proof -
  have init: "Map_get (sessions init_world) sid = None"
    by (simp add: init_world_def Map_get_def)
  have never: "sid \<notin> set (created_ids cs) \<Longrightarrow> Map_get (sessions (run drv cs init_world)) sid = None"
    by (rule absent_run [OF init])
  have twice: "fst (killSession drv sid (snd (killSession drv sid w))) = False"
    by (simp add: fst_killSession sessions_killSession Map_get_delete)
  from never twice show ?thesis
    by (auto simp: killSession_def getSession_def)
qed

text \<open>Claim C7 at an id never created, and at an id terminated twice.\<close>

theorem absent_id_not_found_witness:
  "Map_get (sessions one_world) ''s9'' = None \<and>
   killSession ok_driver ''s9'' one_world = (False, one_world) \<and>
   getSession ''s9'' one_world = None \<and>
   ''s9'' \<notin> set (created_ids [Call_create ''s1'' opts_a ''2026-01-29T00:00:00.000Z'']) \<and>
   getSession ''s9'' (run ok_driver [Call_create ''s1'' opts_a ''2026-01-29T00:00:00.000Z''] init_world) = None \<and>
   fst (killSession ok_driver ''s1'' (snd (killSession ok_driver ''s1'' one_world))) = False"
  using absent_id_not_found [of one_world "''s9''" ok_driver
      "[Call_create ''s1'' opts_a ''2026-01-29T00:00:00.000Z'']"]
    absent_id_not_found [of one_world "''s1''" ok_driver "[]"]
  by (simp add: Map_get_def one_world_def)

subsection \<open>Count and list\<close>

text \<open>
  Claim C8. In every registry state, and so in every reachable one, getActiveCount()
  equals the length of what listSessions() returns; the list names the ids of the Map in
  its order.
\<close>

theorem count_is_length_of_list:
  "getActiveCount w = length (listSessions w) \<and>
   getActiveCount (run drv cs init_world) = length (listSessions (run drv cs init_world)) \<and>
   map sessionId (listSessions w) = map fst (sessions w)"
  by (simp add: getActiveCount_def listSessions_def Map_size_def info_of_def split_def comp_def)

subsection \<open>The status of a session being terminated\<close>




subsection \<open>The server handle stays inside\<close>

text \<open>
  Claim C10. The records returned by createSession, getSession and listSessions have the
  fields sessionId, wsEndpoint, createdAt, status and (for the latter two) options, and no
  field for the server. Their values do not depend on the stored servers either:
  replacing every server object in the registry by another one changes no answer, and the
  answer of a successful createSession is made of the caller's id, the driver's endpoint,
  the creation time and the string active.
\<close>

theorem server_handle_not_exposed:
  "getSession sid (rename_servers f w) = getSession sid w \<and>
   listSessions (rename_servers f w) = listSessions w \<and>
   fst (createSession drv sid opts now (rename_servers f w)) =
     fst (createSession drv sid opts now w) \<and>
   (launchServer drv (launched w) (launch_options_of opts) = Inr ep \<longrightarrow>
      fst (createSession drv sid opts now w) =
        Inr \<lparr>c_sessionId = sid, c_wsEndpoint = ep, c_createdAt = now, c_status = ''active''\<rparr>)"
proof -
  have g: "getSession sid (rename_servers f w) = getSession sid w"
    by (cases "Map_get (sessions w) sid")
       (simp_all add: getSession_def rename_servers_def Map_get_rename info_of_def)
  have l: "listSessions (rename_servers f w) = listSessions w"
    by (simp add: listSessions_def rename_servers_def info_of_def split_def comp_def)
  have c: "fst (createSession drv sid opts now (rename_servers f w)) =
     fst (createSession drv sid opts now w)"
    by (simp add: createSession_def rename_servers_def Let_def split: sum.splits)
  from g l c show ?thesis
    by (simp add: createSession_Inr)
qed

text \<open>Claim C10 at a registry whose server objects are replaced.\<close>

theorem server_handle_not_exposed_witness:
  "launchServer ok_driver (launched one_world) (launch_options_of opts_b) =
     Inr ''ws://127.0.0.1:9222/1'' \<and>
   sessions (rename_servers (\<lambda>h. h + 7) one_world) = [(''s1'', one_session\<lparr>server := 7\<rparr>)] \<and>
   getSession ''s1'' (rename_servers (\<lambda>h. h + 7) one_world) = getSession ''s1'' one_world \<and>
   listSessions (rename_servers (\<lambda>h. h + 7) one_world) = listSessions one_world \<and>
   fst (createSession ok_driver ''s2'' opts_b ''2026-01-29T00:00:05.000Z'' one_world) =
     Inr \<lparr>c_sessionId = ''s2'', c_wsEndpoint = ''ws://127.0.0.1:9222/1'',
          c_createdAt = ''2026-01-29T00:00:05.000Z'', c_status = ''active''\<rparr>"
  using server_handle_not_exposed [of "''s1''" "\<lambda>h. h + 7" one_world ok_driver opts_b
      "''2026-01-29T00:00:05.000Z''" "''ws://127.0.0.1:9222/1''"]
    server_handle_not_exposed [of "''s2''" "\<lambda>h. h + 7" one_world ok_driver opts_b
      "''2026-01-29T00:00:05.000Z''" "''ws://127.0.0.1:9222/1''"]
  by (simp add: example_defs rename_servers_def)

end
